theory Spec2Isabelle
  imports Complex_Main
begin

section \<open>The entry grid of SaisieEcritures.tsx\<close>

text \<open>
  The page \<^verbatim>\<open>frontend/src/pages/SaisieEcritures.tsx\<close> keeps a flat array of entry
  lines (\<^verbatim>\<open>lignes\<close>), a focused cell and two derived totals in React state. Each handler
  of the component is embedded as a function of the values its render captured; the value
  it passes to a state setter is the function's result.
\<close>

subsection \<open>JavaScript numbers\<close>

text \<open>
  A JavaScript number is an IEEE double. The model keeps the three kinds of value the code
  can tell apart (\<^verbatim>\<open>NaN\<close>, the two infinities, a finite value) and computes on finite
  values with exact reals: binary rounding and overflow are not modelled. Every concrete
  amount used below is a small integer, which a double holds exactly.
\<close>

datatype jsnum = NaN | PInf | NInf | Fin real

fun jneg :: "jsnum \<Rightarrow> jsnum" where
  "jneg NaN = NaN"
| "jneg PInf = NInf"
| "jneg NInf = PInf"
| "jneg (Fin a) = Fin (- a)"

fun jadd :: "jsnum \<Rightarrow> jsnum \<Rightarrow> jsnum" where
  "jadd NaN y = NaN"
| "jadd x NaN = NaN"
| "jadd PInf NInf = NaN"
| "jadd NInf PInf = NaN"
| "jadd PInf y = PInf"
| "jadd NInf y = NInf"
| "jadd (Fin a) PInf = PInf"
| "jadd (Fin a) NInf = NInf"
| "jadd (Fin a) (Fin b) = Fin (a + b)"

definition jsub :: "jsnum \<Rightarrow> jsnum \<Rightarrow> jsnum" where
  "jsub x y = jadd x (jneg y)"

text \<open>\<^verbatim>\<open>Math.abs\<close>.\<close>

fun jabs :: "jsnum \<Rightarrow> jsnum" where
  "jabs NaN = NaN"
| "jabs PInf = PInf"
| "jabs NInf = PInf"
| "jabs (Fin a) = Fin \<bar>a\<bar>"

text \<open>The comparisons \<^verbatim>\<open><\<close>, \<^verbatim>\<open>>\<close> and \<^verbatim>\<open>>=\<close>: each is false as soon as an operand is NaN.\<close>

fun jlt :: "jsnum \<Rightarrow> jsnum \<Rightarrow> bool" where
  "jlt NaN y = False"
| "jlt x NaN = False"
| "jlt PInf y = False"
| "jlt x NInf = False"
| "jlt NInf y = True"
| "jlt (Fin a) PInf = True"
| "jlt (Fin a) (Fin b) = (a < b)"

definition jgt :: "jsnum \<Rightarrow> jsnum \<Rightarrow> bool" where
  "jgt x y = jlt y x"

definition jge :: "jsnum \<Rightarrow> jsnum \<Rightarrow> bool" where
  "jge x y = (x \<noteq> NaN \<and> y \<noteq> NaN \<and> \<not> jlt x y)"

subsection \<open>Strings: truthiness, \<^verbatim>\<open>startsWith\<close>, \<^verbatim>\<open>parseFloat\<close>, \<^verbatim>\<open>toFixed(2)\<close>\<close>

text \<open>\<^verbatim>\<open>a || b\<close> on strings: the empty string is the only falsy one.\<close>

definition ou :: "string \<Rightarrow> string \<Rightarrow> string" where
  "ou a b = (if a \<noteq> [] then a else b)"

text \<open>\<^verbatim>\<open>code.startsWith(value)\<close>: a comparison of characters, so case-sensitive.\<close>

definition startsWith :: "string \<Rightarrow> string \<Rightarrow> bool" where
  "startsWith code v = (take (length v) code = v)"

definition isDigit :: "char \<Rightarrow> bool" where
  "isDigit c = (c \<in> set ''0123456789'')"

text \<open>The white space \<^verbatim>\<open>parseFloat\<close> skips, as far as it is ASCII: TAB, LF, VT, FF, CR, SP.\<close>

definition isSpace :: "char \<Rightarrow> bool" where
  "isSpace c = ((of_char c :: nat) \<in> set [9, 10, 11, 12, 13, 32])"

definition valeur :: "string \<Rightarrow> nat" where
  "valeur ds = foldl (\<lambda>n c. 10 * n + (of_char c - 48)) 0 ds"

text \<open>An optional sign in front of a string: whether it is a minus, and the rest.\<close>

fun signe :: "string \<Rightarrow> bool \<times> string" where
  "signe [] = (False, [])"
| "signe (c # r) =
     (if c = CHR ''-'' then (True, r) else if c = CHR ''+'' then (False, r) else (False, c # r))"

text \<open>
  The exponent part \<^verbatim>\<open>e\<close>/\<^verbatim>\<open>E\<close>, optional sign, digits: the factor it stands for, and 1
  when the text has no complete exponent part.
\<close>

definition exposant :: "string \<Rightarrow> real" where
  "exposant r =
     (case r of
        [] \<Rightarrow> 1
      | c # r' \<Rightarrow>
          if c = CHR ''e'' \<or> c = CHR ''E'' then
            (let (moins, r'') = signe r'; ds = takeWhile isDigit r''
             in if ds = [] then 1
                else if moins then 1 / 10 ^ valeur ds else 10 ^ valeur ds)
          else 1)"

text \<open>
  \<^verbatim>\<open>parseFloat\<close> (ECMAScript, StrDecimalLiteral): leading white space is skipped, then the
  longest prefix that is a decimal literal is read: an optional sign, then either
  \<^verbatim>\<open>Infinity\<close> or digits with an optional fraction and exponent. With no such prefix the
  result is NaN; text after the prefix is ignored.
\<close>

definition parseFloat :: "string \<Rightarrow> jsnum" where
  "parseFloat s =
     (let (moins, u) = signe (dropWhile isSpace s)
      in if take 8 u = ''Infinity'' then (if moins then NInf else PInf)
         else
           (let ip = takeWhile isDigit u;
                r1 = dropWhile isDigit u;
                point = (r1 \<noteq> [] \<and> hd r1 = CHR ''.'');
                fp = (if point then takeWhile isDigit (tl r1) else []);
                r2 = (if point then dropWhile isDigit (tl r1) else r1);
                m = (real (valeur ip) + real (valeur fp) / 10 ^ length fp) * exposant r2
            in if ip = [] \<and> fp = [] then NaN
               else Fin (if moins then - m else m)))"

fun chiffres :: "nat \<Rightarrow> string" where
  "chiffres n =
     (if n < 10 then [''0123456789'' ! n]
      else chiffres (n div 10) @ [''0123456789'' ! (n mod 10)])"

declare chiffres.simps [simp del]

text \<open>
  \<^verbatim>\<open>x.toFixed(2)\<close>: the integer \<open>n\<close> with \<open>n / 100\<close> nearest to \<open>\<bar>x\<bar>\<close> (the larger one
  on a tie), written with two decimals, after a minus sign when \<open>x < 0\<close>. From \<open>10\<^sup>2\<^sup>1\<close>
  on JavaScript switches to its exponent notation, which depends on the double's digits;
  the model writes the digits out there too.
\<close>

fun toFixed2 :: "jsnum \<Rightarrow> string" where
  "toFixed2 NaN = ''NaN''"
| "toFixed2 PInf = ''Infinity''"
| "toFixed2 NInf = ''-Infinity''"
| "toFixed2 (Fin x) =
     (let n = nat \<lfloor>\<bar>x\<bar> * 100 + 1 / 2\<rfloor>
      in (if x < 0 then ''-'' else '''') @ chiffres (n div 100) @ ''.'' @
         [''0123456789'' ! (n mod 100 div 10), ''0123456789'' ! (n mod 10)])"

subsection \<open>Entry lines\<close>

text \<open>
  \<^verbatim>\<open>interface LigneEcriture\<close>. An optional field is an \<open>option\<close>; the two optional flags
  are booleans, False when the field is absent, since the code only tests their truthiness.
  The field \<^verbatim>\<open>id\<close> is named \<open>id_l\<close>.
\<close>

record ligne =
  id_l :: "int option"
  tempId :: string
  date :: "string option"
  compte :: string
  compteId :: "int option"
  tiers :: string
  libelle :: string
  debit :: string
  credit :: string
  piece :: "string option"
  isNew :: bool
  isHeader :: bool

text \<open>Truthiness of an optional number (\<^verbatim>\<open>ligne.compteId\<close>): absent and 0 are falsy.\<close>

fun vrai :: "int option \<Rightarrow> bool" where
  "vrai None = False"
| "vrai (Some n) = (n \<noteq> 0)"

text \<open>\<^verbatim>\<open>ligne.piece || ''\<close>.\<close>

fun pieceOu :: "string option \<Rightarrow> string" where
  "pieceOu None = []"
| "pieceOu (Some p) = p"

subsection \<open>Totals and the equilibrium indicator\<close>

text \<open>
  The effect of lines 280-293: one pass over the lines, adding the parsed debit and credit
  of every line that is not a header.
\<close>

definition calculerTotaux :: "ligne list \<Rightarrow> jsnum \<times> jsnum" where
  "calculerTotaux lignes =
     foldl (\<lambda>(d, c) l.
              if \<not> isHeader l
              then (jadd d (parseFloat (ou (debit l) ''0'')),
                    jadd c (parseFloat (ou (credit l) ''0'')))
              else (d, c))
       (Fin 0, Fin 0) lignes"

text \<open>The test of lines 298, 475 and 647: \<^verbatim>\<open>Math.abs(totalDebit - totalCredit) < 0.01\<close>.\<close>

definition estEquilibre :: "jsnum \<Rightarrow> jsnum \<Rightarrow> bool" where
  "estEquilibre td tc = jlt (jabs (jsub td tc)) (Fin (1 / 100))"




subsection \<open>Grid operations\<close>

text \<open>
  What a handler can end in besides a new state: a TypeError thrown by the JavaScript, or
  a value the typed model has no term for (an array with holes).
\<close>

datatype erreur = TypeError | HorsModele

text \<open>
  \<^verbatim>\<open>addNewEcriture\<close> (lines 121-148). \<open>now\<close> is the text of \<^verbatim>\<open>Date.now()\<close> and \<open>today\<close> the
  day of \<^verbatim>\<open>new Date().toISOString()\<close>; the reads of the clock within one call get the same
  value. The result is the array passed to \<^verbatim>\<open>setLignes\<close>, built from the \<^verbatim>\<open>lignes\<close> the
  render captured.
\<close>

definition newEcriture :: "string \<Rightarrow> string \<Rightarrow> ligne list" where
  "newEcriture now today =
     [\<lparr>id_l = None, tempId = now, date = Some today, compte = [], compteId = None,
       tiers = [], libelle = [], debit = [], credit = [], piece = Some [], isNew = True,
       isHeader = True\<rparr>,
      \<lparr>id_l = None, tempId = now @ ''_1'', date = None, compte = [], compteId = None,
       tiers = [], libelle = [], debit = [], credit = [], piece = Some [], isNew = True,
       isHeader = False\<rparr>]"

definition addNewEcriture :: "string \<Rightarrow> string \<Rightarrow> ligne list \<Rightarrow> ligne list" where
  "addNewEcriture now today lignes = lignes @ newEcriture now today"

text \<open>The loop of lines 164-167, from \<open>insertIndex\<close> on.\<close>

function trouverInsertion :: "ligne list \<Rightarrow> nat \<Rightarrow> nat" where
  "trouverInsertion lignes insertIndex =
     (if insertIndex < length lignes \<and> \<not> isHeader (lignes ! insertIndex)
      then trouverInsertion lignes (Suc insertIndex)
      else insertIndex)"
  by pat_completeness auto
termination
  by (relation "measure (\<lambda>(lignes, insertIndex). length lignes - insertIndex)") auto

declare trouverInsertion.simps [simp del]

text \<open>
  \<^verbatim>\<open>addLigneToCurrentEcriture\<close> (lines 151-172). Reading \<^verbatim>\<open>lignes[currentRow].libelle\<close>
  throws when \<open>currentRow\<close> is not a row. \<^verbatim>\<open>splice(insertIndex, 0, newLigne)\<close> inserts in
  front of position \<open>insertIndex\<close>.
\<close>

definition addLigneToCurrentEcriture ::
  "string \<Rightarrow> ligne list \<Rightarrow> nat \<Rightarrow> erreur + ligne list" where
  "addLigneToCurrentEcriture now lignes currentRow =
     (if currentRow < length lignes then
        (let newLigne = \<lparr>id_l = None, tempId = now, date = None, compte = [],
               compteId = None, tiers = [], libelle = libelle (lignes ! currentRow),
               debit = [], credit = [], piece = Some [], isNew = True, isHeader = False\<rparr>;
             insertIndex = trouverInsertion lignes (currentRow + 1)
         in Inr (take insertIndex lignes @ [newLigne] @ drop insertIndex lignes))
      else Inl TypeError)"

text \<open>The fields \<^verbatim>\<open>updateCell\<close> is called with, and the assignment \<^verbatim>\<open>[field]: value\<close>.\<close>

datatype champ = Date | Piece | Compte | Tiers | Libelle | Debit | Credit

fun affecter :: "champ \<Rightarrow> string \<Rightarrow> ligne \<Rightarrow> ligne" where
  "affecter Date v l = l\<lparr>date := Some v\<rparr>"
| "affecter Piece v l = l\<lparr>piece := Some v\<rparr>"
| "affecter Compte v l = l\<lparr>compte := v\<rparr>"
| "affecter Tiers v l = l\<lparr>tiers := v\<rparr>"
| "affecter Libelle v l = l\<lparr>libelle := v\<rparr>"
| "affecter Debit v l = l\<lparr>debit := v\<rparr>"
| "affecter Credit v l = l\<lparr>credit := v\<rparr>"

text \<open>
  The loop of lines 254-260. \<open>lignes\<close> is the captured array: its element at \<open>row\<close> is the
  header before the edit (the edited header is a fresh object of \<open>newLignes\<close>), and the
  loop changes descriptions only, so the header flags it reads are the original ones.
\<close>

function propager :: "ligne list \<Rightarrow> nat \<Rightarrow> string \<Rightarrow> nat \<Rightarrow> ligne list \<Rightarrow> ligne list" where
  "propager lignes row v i newLignes =
     (if i < length lignes \<and> \<not> isHeader (lignes ! i) then
        propager lignes row v (Suc i)
          (if libelle (newLignes ! i) = [] \<or> libelle (newLignes ! i) = libelle (lignes ! row)
           then newLignes[i := (newLignes ! i)\<lparr>libelle := v\<rparr>]
           else newLignes)
      else newLignes)"
  by pat_completeness auto
termination
  by (relation "measure (\<lambda>(lignes, row, v, i, newLignes). length lignes - i)") auto

declare propager.simps [simp del]

text \<open>
  \<^verbatim>\<open>updateCell\<close> (lines 248-264); the result is the array passed to \<^verbatim>\<open>setLignes\<close>. The
  rows come from \<^verbatim>\<open>lignes.map\<close>, so \<open>row\<close> is a row of the grid. Outside the grid the
  JavaScript throws on \<^verbatim>\<open>lignes[row].isHeader\<close> when the field is the description, and
  otherwise stores an array with holes and an object holding the one field, which is no
  list of lines.
\<close>

definition updateCell :: "ligne list \<Rightarrow> nat \<Rightarrow> champ \<Rightarrow> string \<Rightarrow> erreur + ligne list" where
  "updateCell lignes row field v =
     (if row < length lignes then
        (let newLignes = lignes[row := affecter field v (lignes ! row)]
         in if field = Libelle \<and> isHeader (lignes ! row)
            then Inr (propager lignes row v (row + 1) newLignes)
            else Inr newLignes)
      else if field = Libelle then Inl TypeError
      else Inl HorsModele)"

text \<open>\<^verbatim>\<open>interface Compte\<close>; its fields carry the suffix \<open>_c\<close> where the name is taken.\<close>

record compteRef =
  id_c :: int
  code :: string
  libelle_c :: string
  type_c :: string

text \<open>
  A state setter called with a value replaces whatever an earlier call of the same handler
  queued: after the handler, the state is the value of the last call, or the old state
  when there was none.
\<close>

definition dernierAppel :: "'a \<Rightarrow> 'a list \<Rightarrow> 'a" where
  "dernierAppel ancien appels = (if appels = [] then ancien else last appels)"

text \<open>
  \<^verbatim>\<open>handleCompteSearch\<close> (lines 267-277). \<^verbatim>\<open>updateCell\<close> queues its array first. On a match
  the handler copies the captured \<^verbatim>\<open>lignes\<close> again, writes the identifier into the
  captured line object and queues that copy, which replaces the array of \<^verbatim>\<open>updateCell\<close>.
\<close>

definition handleCompteSearch ::
  "compteRef list \<Rightarrow> ligne list \<Rightarrow> nat \<Rightarrow> string \<Rightarrow> erreur + ligne list" where
  "handleCompteSearch comptes lignes row v =
     (case updateCell lignes row Compte v of
        Inl e \<Rightarrow> Inl e
      | Inr appel1 \<Rightarrow>
          (case find (\<lambda>c. startsWith (code c) v) comptes of
             None \<Rightarrow> Inr (dernierAppel lignes [appel1])
           | Some c \<Rightarrow>
               Inr (dernierAppel lignes
                      [appel1, lignes[row := (lignes ! row)\<lparr>compteId := Some (id_c c)\<rparr>]])))"

text \<open>
  The loop of lines 302-307, with \<open>n = i + 1\<close>: the last line that is not a header and has
  an account, a debit or a credit; \<open>None\<close> stands for \<^verbatim>\<open>lastIndex === -1\<close>.
\<close>

fun derniereNonVide :: "ligne list \<Rightarrow> nat \<Rightarrow> nat option" where
  "derniereNonVide lignes 0 = None"
| "derniereNonVide lignes (Suc i) =
     (if \<not> isHeader (lignes ! i) \<and>
         (compte (lignes ! i) \<noteq> [] \<or> debit (lignes ! i) \<noteq> [] \<or> credit (lignes ! i) \<noteq> [])
      then Some i
      else derniereNonVide lignes i)"

text \<open>
  \<^verbatim>\<open>equilibrerEcriture\<close> (lines 296-323); on an early return no setter is called and the
  lines stay as they are.
\<close>

definition equilibrerEcriture :: "jsnum \<Rightarrow> jsnum \<Rightarrow> ligne list \<Rightarrow> ligne list" where
  "equilibrerEcriture totalDebit totalCredit lignes =
     (let ecart = jsub totalDebit totalCredit
      in if jlt (jabs ecart) (Fin (1 / 100)) then lignes
         else
           (case derniereNonVide lignes (length lignes) of
              None \<Rightarrow> lignes
            | Some lastIndex \<Rightarrow>
                if jgt ecart (Fin 0)
                then lignes[lastIndex :=
                       (lignes ! lastIndex)\<lparr>credit := toFixed2 ecart, debit := []\<rparr>]
                else lignes[lastIndex :=
                       (lignes ! lastIndex)\<lparr>debit := toFixed2 (jabs ecart), credit := []\<rparr>]))"

subsection \<open>Submission grouping\<close>

text \<open>
  The objects built at lines 349-357 and 360-366. \<^verbatim>\<open>compte: ligne.compteId\<close> keeps the
  optional identifier as it is.
\<close>

record ligneData =
  compte_d :: "int option"
  libelle_d :: string
  montant_debit :: jsnum
  montant_credit :: jsnum
  piece_d :: string

record ecriture =
  journal :: jsnum
  periode :: jsnum
  exercice :: "int option"
  date_ecriture :: "string option"
  libelle_e :: string
  reference :: string
  lignes_data :: "ligneData list"

text \<open>
  \<open>j\<close> and \<open>p\<close> are the values of \<^verbatim>\<open>parseInt(selectedJournal)\<close> and
  \<^verbatim>\<open>parseInt(selectedPeriode)\<close>, \<open>ex\<close> is \<^verbatim>\<open>exerciceId\<close>.
\<close>

definition payload :: "jsnum \<Rightarrow> jsnum \<Rightarrow> int option \<Rightarrow> ligne \<Rightarrow> ecriture" where
  "payload j p ex l =
     \<lparr>journal = j, periode = p, exercice = ex, date_ecriture = date l,
      libelle_e = libelle l, reference = pieceOu (piece l), lignes_data = []\<rparr>"

definition detail :: "ligne \<Rightarrow> ligneData" where
  "detail l =
     \<lparr>compte_d = compteId l, libelle_d = libelle l,
      montant_debit = parseFloat (ou (debit l) ''0''),
      montant_credit = parseFloat (ou (credit l) ''0''),
      piece_d = pieceOu (piece l)\<rparr>"

text \<open>
  \<^verbatim>\<open>currentEcriture.lignes\<close> at line 344: the object of lines 349-357 has the properties
  \<^verbatim>\<open>journal\<close> to \<^verbatim>\<open>lignes_data\<close> and none called \<^verbatim>\<open>lignes\<close>, so the read gives
  \<^verbatim>\<open>undefined\<close>; \<^verbatim>\<open>.length\<close> of \<^verbatim>\<open>undefined\<close> throws a TypeError.
\<close>

definition propLignes :: "ecriture \<Rightarrow> ligneData list option" where
  "propLignes e = None"

fun longueur :: "'a list option \<Rightarrow> erreur + nat" where
  "longueur None = Inl TypeError"
| "longueur (Some xs) = Inr (length xs)"

text \<open>
  The callback of \<^verbatim>\<open>lignes.forEach\<close> (lines 341-368) on the pair of \<^verbatim>\<open>ecritures\<close> and
  \<^verbatim>\<open>currentEcriture\<close>.
\<close>

fun grouperLigne ::
  "jsnum \<Rightarrow> jsnum \<Rightarrow> int option \<Rightarrow> ecriture list \<times> ecriture option \<Rightarrow> ligne \<Rightarrow>
   erreur + ecriture list \<times> ecriture option" where
  "grouperLigne j p ex (ecritures, currentEcriture) l =
     (if isHeader l \<and> compte l \<noteq> [] then
        (case currentEcriture of
           None \<Rightarrow> Inr (ecritures, Some (payload j p ex l))
         | Some e \<Rightarrow>
             (case longueur (propLignes e) of
                Inl err \<Rightarrow> Inl err
              | Inr n \<Rightarrow>
                  Inr (if n \<ge> 2 then ecritures @ [e] else ecritures,
                       Some (payload j p ex l))))
      else
        (case currentEcriture of
           None \<Rightarrow> Inr (ecritures, None)
         | Some e \<Rightarrow>
             if compte l \<noteq> [] \<and> vrai (compteId l)
             then Inr (ecritures, Some (e\<lparr>lignes_data := lignes_data e @ [detail l]\<rparr>))
             else Inr (ecritures, Some e)))"

fun parcourir ::
  "jsnum \<Rightarrow> jsnum \<Rightarrow> int option \<Rightarrow> ecriture list \<times> ecriture option \<Rightarrow> ligne list \<Rightarrow>
   erreur + ecriture list \<times> ecriture option" where
  "parcourir j p ex etat [] = Inr etat"
| "parcourir j p ex etat (l # reste) =
     (case grouperLigne j p ex etat l of
        Inl err \<Rightarrow> Inl err
      | Inr etat' \<Rightarrow> parcourir j p ex etat' reste)"

text \<open>Lines 338-373: the scan, then the last pending transaction.\<close>

definition grouper :: "jsnum \<Rightarrow> jsnum \<Rightarrow> int option \<Rightarrow> ligne list \<Rightarrow> erreur + ecriture list" where
  "grouper j p ex lignes =
     (case parcourir j p ex ([], None) lignes of
        Inl err \<Rightarrow> Inl err
      | Inr (ecritures, currentEcriture) \<Rightarrow>
          (case currentEcriture of
             None \<Rightarrow> Inr ecritures
           | Some e \<Rightarrow>
               Inr (if length (lignes_data e) \<ge> 2 then ecritures @ [e] else ecritures)))"

text \<open>
  The loop of lines 378-380: \<open>create\<close> tells whether the service accepts a transaction;
  the first refusal throws and ends the loop.
\<close>

fun envoyer :: "(ecriture \<Rightarrow> bool) \<Rightarrow> ecriture list \<Rightarrow> bool" where
  "envoyer create [] = True"
| "envoyer create (e # reste) = (if create e then envoyer create reste else False)"

subsection \<open>Runs of the grid operations\<close>

text \<open>
  Runs of the two operations that add lines, from the state \<^verbatim>\<open>loadInitialData\<close> leaves
  (\<^verbatim>\<open>addNewEcriture\<close> on the empty array). Each operation carries the clock values it
  reads, and the appending one the focused row; an operation that throws changes nothing.
\<close>

datatype operation = NouvelleEcriture string string | AjouterLigne string nat

fun appliquer :: "ligne list \<Rightarrow> operation \<Rightarrow> ligne list" where
  "appliquer lignes (NouvelleEcriture now today) = addNewEcriture now today lignes"
| "appliquer lignes (AjouterLigne now currentRow) =
     (case addLigneToCurrentEcriture now lignes currentRow of
        Inl err \<Rightarrow> lignes
      | Inr newLignes \<Rightarrow> newLignes)"

definition etatInitial :: "string \<Rightarrow> string \<Rightarrow> ligne list" where
  "etatInitial now today = addNewEcriture now today []"

definition executer :: "ligne list \<Rightarrow> operation list \<Rightarrow> ligne list" where
  "executer lignes ops = foldl appliquer lignes ops"

subsection \<open>The session state, submission and the keyboard\<close>

record session =
  selectedJournal :: string
  selectedPeriode :: string
  exerciceId :: "int option"
  lignes :: "ligne list"
  currentRow :: nat
  currentCol :: nat
  totalDebit :: jsnum
  totalCredit :: jsnum
  saving :: bool

datatype alerte = SelectionManquante | NonEquilibree | Creees nat | ErreurSauvegarde

text \<open>
  \<^verbatim>\<open>validerEcriture\<close> (lines 326-393): the state after the handler and the alert it shows.
  \<open>s\<close> holds the values the render captured. A TypeError of the grouping leaves the
  handler before any setter is called. On success the handler calls \<^verbatim>\<open>setLignes([])\<close> and
  then \<^verbatim>\<open>addNewEcriture()\<close>, which is the function of the same render and so builds its
  array from the captured \<^verbatim>\<open>lignes\<close>.
\<close>

definition validerEcriture ::
  "(string \<Rightarrow> jsnum) \<Rightarrow> (ecriture \<Rightarrow> bool) \<Rightarrow> string \<Rightarrow> string \<Rightarrow> session \<Rightarrow>
   erreur + session \<times> alerte" where
  "validerEcriture parseInt create now today s =
     (if selectedJournal s = [] \<or> selectedPeriode s = [] then Inr (s, SelectionManquante)
      else if jge (jabs (jsub (totalDebit s) (totalCredit s))) (Fin (1 / 100))
      then Inr (s, NonEquilibree)
      else
        (case grouper (parseInt (selectedJournal s)) (parseInt (selectedPeriode s))
                (exerciceId s) (lignes s) of
           Inl err \<Rightarrow> Inl err
         | Inr ecritures \<Rightarrow>
             if envoyer create ecritures
             then Inr (s\<lparr>lignes := dernierAppel (lignes s)
                                     [[], addNewEcriture now today (lignes s)],
                         saving := False\<rparr>,
                       Creees (length ecritures))
             else Inr (s\<lparr>saving := False\<rparr>, ErreurSauvegarde)))"





subsection \<open>Example lines\<close>

text \<open>A blank detail line and a blank header line, to build examples from.\<close>

definition detailVide :: ligne where
  "detailVide = \<lparr>id_l = None, tempId = ''t'', date = None, compte = [], compteId = None,
     tiers = [], libelle = [], debit = [], credit = [], piece = Some [], isNew = True,
     isHeader = False\<rparr>"

definition enteteVide :: ligne where
  "enteteVide = detailVide\<lparr>date := Some ''2024-06-01'', isHeader := True\<rparr>"

text \<open>
  The lines of the specification's example scenario: the header of a purchase, a detail line
  on account 601 with a debit and one on account 401 with a credit, both resolved.
\<close>

definition achat :: ligne where
  "achat = enteteVide\<lparr>compte := ''601'', libelle := ''Achat fournitures''\<rparr>"

definition ligne601 :: "string \<Rightarrow> ligne" where
  "ligne601 d = detailVide\<lparr>compte := ''601'', compteId := Some 1, debit := d\<rparr>"

definition ligne401 :: "string \<Rightarrow> ligne" where
  "ligne401 c = detailVide\<lparr>compte := ''401'', compteId := Some 2, credit := c\<rparr>"

definition sessionExemple :: session where
  "sessionExemple =
     \<lparr>selectedJournal = ''1'', selectedPeriode = ''1'', exerciceId = Some 1,
      lignes = [achat, ligne601 ''100.00'', ligne401 ''100.00''],
      currentRow = 0, currentCol = 0, totalDebit = Fin 100, totalCredit = Fin 100,
      saving = False\<rparr>"

text \<open>A chart of accounts of three entries, and a grid of two transactions with descriptions.\<close>

definition comptesExemple :: "compteRef list" where
  "comptesExemple =
     [\<lparr>id_c = 1, code = ''601'', libelle_c = ''Achats'', type_c = ''CHARGE''\<rparr>,
      \<lparr>id_c = 2, code = ''401'', libelle_c = ''Fournisseurs'', type_c = ''PASSIF''\<rparr>,
      \<lparr>id_c = 3, code = ''6011'', libelle_c = ''Achats de marchandises'', type_c = ''CHARGE''\<rparr>]"

definition lignesLibelles :: "ligne list" where
  "lignesLibelles =
     [achat, detailVide, detailVide\<lparr>libelle := ''Achat fournitures''\<rparr>,
      detailVide\<lparr>libelle := ''Transport''\<rparr>,
      enteteVide\<lparr>libelle := ''Achat fournitures''\<rparr>,
      detailVide\<lparr>libelle := ''Achat fournitures''\<rparr>]"

text \<open>The grouping invariant of the grid: there is a first line and it is a header.\<close>

definition enTete :: "ligne list \<Rightarrow> bool" where
  "enTete ls = (ls \<noteq> [] \<and> isHeader (hd ls))"

section \<open>Balance calculator\<close>






section \<open>Auto-balance\<close>

text \<open>
  C1 at the specification's own scenario: detail 1 has debit 150.00, detail 2 has credit
  100.00, so the totals are 150 and 100 and the gap is 50. \<^verbatim>\<open>equilibrerEcriture\<close> writes
  the gap over the credit of detail 2, the last line with an account or an amount, instead
  of adding it: the credit becomes 50.00, the totals become 150 and 50, and the sequence
  is not balanced.
\<close>

theorem C1_equilibrer_unbalanced:
  "calculerTotaux [achat, ligne601 ''150.00'', ligne401 ''100.00''] = (Fin 150, Fin 100) \<and>
   equilibrerEcriture (Fin 150) (Fin 100) [achat, ligne601 ''150.00'', ligne401 ''100.00'']
     = [achat, ligne601 ''150.00'', ligne401 ''50.00''] \<and>
   calculerTotaux [achat, ligne601 ''150.00'', ligne401 ''50.00''] = (Fin 150, Fin 50) \<and>
   estEquilibre (Fin 150) (Fin 50) = False"
  by code_simp

section \<open>Submission grouping\<close>

text \<open>
  C2 at two transactions of a header and two resolved detail lines each: at the second
  header the scan reads \<^verbatim>\<open>currentEcriture.lignes.length\<close> and throws, so nothing is
  emitted. With one transaction the scan never reaches that read: two detail lines give
  one payload, one detail line gives none.
\<close>

theorem C2_second_header_throws:
  "grouper j p ex [achat, ligne601 ''100.00'', ligne401 ''100.00'',
                  achat, ligne601 ''100.00'', ligne401 ''100.00''] = Inl TypeError \<and>
   grouper j p ex [achat, ligne601 ''100.00'', ligne401 ''100.00'']
     = Inr [(payload j p ex achat)\<lparr>lignes_data :=
              [detail (ligne601 ''100.00''), detail (ligne401 ''100.00'')]\<rparr>] \<and>
   grouper j p ex [achat, ligne601 ''100.00''] = Inr []"
  by (simp add: grouper_def payload_def propLignes_def achat_def ligne601_def ligne401_def
      enteteVide_def detailVide_def)

lemma grouperLigne_sans_compte:
  "compte l = [] \<Longrightarrow> grouperLigne j p ex etat l = Inr etat"
  by (cases etat) (simp split: option.splits)

lemma parcourir_append:
  "parcourir j p ex etat (xs @ ys) =
     (case parcourir j p ex etat xs of
        Inl err \<Rightarrow> Inl err
      | Inr etat' \<Rightarrow> parcourir j p ex etat' ys)"
  by (induction xs arbitrary: etat) (simp_all split: sum.splits)

text \<open>
  C10: during the scan, a header line whose account code is empty neither starts a pending
  transaction nor closes the pending one: the scan of a sequence containing such a header
  gives what the scan of the sequence without it gives, so the detail lines after it go
  to the transaction pending before it.
\<close>

theorem C10_header_without_account_skipped:
  assumes "isHeader h" and "compte h = []"
  shows "grouper j p ex (xs @ h # ys) = grouper j p ex (xs @ ys)"
  using assms
  by (simp add: grouper_def parcourir_append grouperLigne_sans_compte split: sum.splits)

text \<open>
  An instance: a header with account 601 and one resolved detail line, then a header with
  no account and another resolved detail line, give one payload holding both detail lines.
\<close>

theorem C10_merge_witness:
  "isHeader enteteVide \<and> compte enteteVide = [] \<and>
   grouper (Fin 1) (Fin 1) (Some 1) ([achat, ligne601 ''100.00''] @ enteteVide # [ligne401 ''100.00''])
     = Inr [(payload (Fin 1) (Fin 1) (Some 1) achat)\<lparr>lignes_data :=
              [detail (ligne601 ''100.00''), detail (ligne401 ''100.00'')]\<rparr>]"
proof -
  have h: "isHeader enteteVide" "compte enteteVide = []"
    by (simp_all add: enteteVide_def detailVide_def)
  have "grouper (Fin 1) (Fin 1) (Some 1) ([achat, ligne601 ''100.00''] @ [ligne401 ''100.00''])
     = Inr [(payload (Fin 1) (Fin 1) (Some 1) achat)\<lparr>lignes_data :=
              [detail (ligne601 ''100.00''), detail (ligne401 ''100.00'')]\<rparr>]"
    by (simp add: grouper_def payload_def achat_def ligne601_def ligne401_def
      enteteVide_def detailVide_def)
  with h C10_header_without_account_skipped [OF h, of "Fin 1" "Fin 1" "Some 1"
       "[achat, ligne601 ''100.00'']" "[ligne401 ''100.00'']"]
  show ?thesis by simp
qed

section \<open>Submission\<close>

text \<open>
  C4 at the example session (one balanced transaction, every create call accepted): the
  submission succeeds with one transaction created, and the lines afterwards are the
  three lines of the session followed by the fresh header and detail line, five lines
  in all.
\<close>

theorem C4_reset_keeps_lines:
  "validerEcriture parseInt (\<lambda>e. True) now today sessionExemple
     = Inr (sessionExemple\<lparr>lignes :=
              [achat, ligne601 ''100.00'', ligne401 ''100.00''] @ newEcriture now today\<rparr>,
            Creees 1) \<and>
   length ([achat, ligne601 ''100.00'', ligne401 ''100.00''] @ newEcriture now today) = 5"
  by (simp add: validerEcriture_def sessionExemple_def jge_def jsub_def grouper_def payload_def
      dernierAppel_def addNewEcriture_def newEcriture_def achat_def ligne601_def ligne401_def
      enteteVide_def detailVide_def)

section \<open>Appending a line\<close>

text \<open>
  C6 with the focus on a detail line whose description differs from its header's: the new
  line is inserted at the end of the transaction, and its description is the focused
  line's (\<^verbatim>\<open>Transport\<close>), not the header's (\<^verbatim>\<open>Achat fournitures\<close>).
\<close>

theorem C6_copies_focused_description:
  "addLigneToCurrentEcriture now [achat, (ligne601 ''100.00'')\<lparr>libelle := ''Transport''\<rparr>] 1
     = Inr [achat, (ligne601 ''100.00'')\<lparr>libelle := ''Transport''\<rparr>,
            detailVide\<lparr>tempId := now, libelle := ''Transport''\<rparr>] \<and>
   libelle achat = ''Achat fournitures''"
  by (simp add: addLigneToCurrentEcriture_def trouverInsertion.simps achat_def ligne601_def
      enteteVide_def detailVide_def)

section \<open>The header invariant\<close>

lemma trouverInsertion_ge: "i \<le> trouverInsertion ls i"
proof (induction ls i rule: trouverInsertion.induct)
  case (1 ls i)
  then show ?case
    by (subst trouverInsertion.simps) (auto simp: Suc_leD)
qed

lemma enTete_addNew: "enTete ls \<Longrightarrow> enTete (addNewEcriture now today ls)"
  by (simp add: enTete_def addNewEcriture_def)

lemma enTete_etatInitial: "enTete (etatInitial now today)"
  by (simp add: enTete_def etatInitial_def addNewEcriture_def newEcriture_def)

lemma enTete_addLigne:
  assumes "enTete ls" and "addLigneToCurrentEcriture now ls r = Inr ls'"
  shows "enTete ls'"
proof -
  from assms(2) obtain n where
    ls': "ls' = take (trouverInsertion ls (r + 1)) ls @ [n] @ drop (trouverInsertion ls (r + 1)) ls"
    by (auto simp: addLigneToCurrentEcriture_def Let_def split: if_splits)
  have "0 < trouverInsertion ls (r + 1)"
    using trouverInsertion_ge [of "r + 1" ls] by simp
  with assms(1) show ?thesis
    by (cases ls) (simp_all add: ls' enTete_def take_Cons')
qed

lemma enTete_appliquer: "enTete ls \<Longrightarrow> enTete (appliquer ls op)"
  by (cases op) (auto simp: enTete_addNew enTete_addLigne split: sum.splits)

lemma enTete_executer: "enTete ls \<Longrightarrow> enTete (executer ls ops)"
  unfolding executer_def
  by (induction ops arbitrary: ls) (simp_all add: enTete_appliquer)

lemma entete_precedente:
  "isHeader (ls ! 0) \<Longrightarrow> \<not> isHeader (ls ! i) \<Longrightarrow>
   \<exists>j<i. isHeader (ls ! j) \<and> (\<forall>k. j < k \<and> k \<le> i \<longrightarrow> \<not> isHeader (ls ! k))"
proof (induction i)
  case 0
  then show ?case by simp
next
  case (Suc n)
  show ?case
  proof (cases "isHeader (ls ! n)")
    case True
    with Suc.prems show ?thesis
      by (intro exI [of _ n]) (auto simp: le_Suc_eq)
  next
    case False
    with Suc obtain j where j: "j < n" "isHeader (ls ! j)"
      "\<forall>k. j < k \<and> k \<le> n \<longrightarrow> \<not> isHeader (ls ! k)" by blast
    with Suc.prems show ?thesis
      by (intro exI [of _ j]) (auto simp: le_Suc_eq)
  qed
qed

text \<open>
  C9: from the initial state, after any run of the operations that start a transaction or
  append a line to the current one, the sequence has a first line, that line is a header,
  and every line that is not a header has a nearest header before it: a header at some
  earlier row with no header between it and the line.
\<close>

theorem C9_header_invariant:
  assumes "ls = executer (etatInitial now today) ops"
  shows "ls \<noteq> [] \<and> isHeader (hd ls) \<and>
         (\<forall>i<length ls. \<not> isHeader (ls ! i) \<longrightarrow>
            (\<exists>j<i. isHeader (ls ! j) \<and> (\<forall>k. j < k \<and> k \<le> i \<longrightarrow> \<not> isHeader (ls ! k))))"
proof -
  have e: "enTete ls"
    unfolding assms by (rule enTete_executer [OF enTete_etatInitial])
  then have "isHeader (ls ! 0)"
    by (cases ls) (simp_all add: enTete_def)
  with e show ?thesis
    by (auto simp: enTete_def dest: entete_precedente)
qed


text \<open>An instance: a run of three operations, and the header flags of the six lines it gives.\<close>

theorem C9_header_witness:
  "executer (etatInitial ''1'' ''2024-06-01'')
      [AjouterLigne ''2'' 1, NouvelleEcriture ''3'' ''2024-06-02'', AjouterLigne ''4'' 0] \<noteq> [] \<and>
   isHeader (hd (executer (etatInitial ''1'' ''2024-06-01'')
      [AjouterLigne ''2'' 1, NouvelleEcriture ''3'' ''2024-06-02'', AjouterLigne ''4'' 0])) \<and>
   map isHeader (executer (etatInitial ''1'' ''2024-06-01'')
      [AjouterLigne ''2'' 1, NouvelleEcriture ''3'' ''2024-06-02'', AjouterLigne ''4'' 0])
     = [True, False, False, False, True, False]"
proof -
  have "map isHeader (executer (etatInitial ''1'' ''2024-06-01'')
      [AjouterLigne ''2'' 1, NouvelleEcriture ''3'' ''2024-06-02'', AjouterLigne ''4'' 0])
     = [True, False, False, False, True, False]"
    by (simp add: executer_def etatInitial_def addNewEcriture_def newEcriture_def
        addLigneToCurrentEcriture_def trouverInsertion.simps)
  with C9_header_invariant [OF refl, of "''1''" "''2024-06-01''"
      "[AjouterLigne ''2'' 1, NouvelleEcriture ''3'' ''2024-06-02'', AjouterLigne ''4'' 0]"]
  show ?thesis by blast
qed

section \<open>Description propagation\<close>

lemma propager_length:
  "length newLignes = length ls \<Longrightarrow> length (propager ls row v i newLignes) = length ls"
proof (induction ls row v i newLignes rule: propager.induct)
  case (1 ls row v i newLignes)
  then show ?case
    by (subst propager.simps) simp
qed

lemma propager_nth:
  "length newLignes = length ls \<Longrightarrow> k < length ls \<Longrightarrow>
   propager ls row v i newLignes ! k =
     (if (i \<le> k \<and> (\<forall>j. i \<le> j \<and> j \<le> k \<longrightarrow> \<not> isHeader (ls ! j))) \<and>
         (libelle (newLignes ! k) = [] \<or> libelle (newLignes ! k) = libelle (ls ! row))
      then (newLignes ! k)\<lparr>libelle := v\<rparr>
      else newLignes ! k)"
proof (induction ls row v i newLignes rule: propager.induct)
  case (1 ls row v i newLignes)
  show ?case
  proof (cases "i < length ls \<and> \<not> isHeader (ls ! i)")
    case False
    have "\<not> (i \<le> k \<and> (\<forall>j. i \<le> j \<and> j \<le> k \<longrightarrow> \<not> isHeader (ls ! j)))"
      using False "1.prems" by auto
    with False show ?thesis
      by (subst propager.simps) auto
  next
    case True
    note a = this
    let ?nl = "if libelle (newLignes ! i) = [] \<or> libelle (newLignes ! i) = libelle (ls ! row)
           then newLignes[i := (newLignes ! i)\<lparr>libelle := v\<rparr>] else newLignes"
    have len: "length ?nl = length ls" using "1.prems" by simp
    have step: "propager ls row v i newLignes = propager ls row v (Suc i) ?nl"
      using True by (subst propager.simps) simp
    have ih: "propager ls row v (Suc i) ?nl ! k =
       (if (Suc i \<le> k \<and> (\<forall>j. Suc i \<le> j \<and> j \<le> k \<longrightarrow> \<not> isHeader (ls ! j))) \<and>
           (libelle (?nl ! k) = [] \<or> libelle (?nl ! k) = libelle (ls ! row))
        then (?nl ! k)\<lparr>libelle := v\<rparr> else ?nl ! k)"
      using "1.IH" [OF True len "1.prems"(2)] .
    have range: "(i \<le> k \<and> (\<forall>j. i \<le> j \<and> j \<le> k \<longrightarrow> \<not> isHeader (ls ! j))) =
        (i = k \<or> (Suc i \<le> k \<and> (\<forall>j. Suc i \<le> j \<and> j \<le> k \<longrightarrow> \<not> isHeader (ls ! j))))"
    proof -
      have "(\<forall>j. i \<le> j \<and> j \<le> k \<longrightarrow> \<not> isHeader (ls ! j)) =
            (\<forall>j. Suc i \<le> j \<and> j \<le> k \<longrightarrow> \<not> isHeader (ls ! j))" if "i \<le> k"
        using True by (metis Suc_leD not_less_eq_eq order_antisym_conv)
      moreover have "\<forall>j. i \<le> j \<and> j \<le> k \<longrightarrow> \<not> isHeader (ls ! j)" if "i = k"
        using True that by auto
      ultimately show ?thesis
        by (auto simp: Suc_le_eq)
    qed
    show ?thesis
    proof (cases "k = i")
      case True
      with "1.prems" show ?thesis
        unfolding step ih range by simp
    next
      case False
      then have "?nl ! k = newLignes ! k" by simp
      then show ?thesis
        unfolding step ih range using False by auto
    qed
  qed
qed

text \<open>
  C8: updating the description of the header at \<open>row\<close> to \<open>v\<close> succeeds and keeps the
  number of lines. The header gets \<open>v\<close>; a line after it and before the next header gets
  \<open>v\<close> when its description was empty or equal to the header's previous description;
  every other line (a line with a diverging description, a line of another transaction)
  is unchanged. Only the description field of a line changes.
\<close>

theorem C8_description_propagation:
  assumes "row < length ls" and "isHeader (ls ! row)"
  shows "\<exists>res. updateCell ls row Libelle v = Inr res \<and> length res = length ls \<and>
           (\<forall>i<length ls. res ! i =
              (if i = row \<or>
                  (row < i \<and> (\<forall>j. row < j \<and> j \<le> i \<longrightarrow> \<not> isHeader (ls ! j)) \<and>
                   (libelle (ls ! i) = [] \<or> libelle (ls ! i) = libelle (ls ! row)))
               then (ls ! i)\<lparr>libelle := v\<rparr>
               else ls ! i))"
proof -
  let ?nl = "ls[row := (ls ! row)\<lparr>libelle := v\<rparr>]"
  let ?res = "propager ls row v (row + 1) ?nl"
  have r: "updateCell ls row Libelle v = Inr ?res"
    using assms by (simp add: updateCell_def)
  have len: "length ?res = length ls"
    by (simp add: propager_length)
  have "?res ! i =
          (if i = row \<or>
              (row < i \<and> (\<forall>j. row < j \<and> j \<le> i \<longrightarrow> \<not> isHeader (ls ! j)) \<and>
               (libelle (ls ! i) = [] \<or> libelle (ls ! i) = libelle (ls ! row)))
           then (ls ! i)\<lparr>libelle := v\<rparr>
           else ls ! i)" if i: "i < length ls" for i
  proof (cases "i = row")
    case True
    then show ?thesis
      using i by (simp add: propager_nth)
  next
    case False
    then have "?nl ! i = ls ! i" by simp
    then show ?thesis
      using i False by (auto simp: propager_nth Suc_le_eq)
  qed
  with r len show ?thesis by blast
qed


text \<open>
  An instance: the header and the blank detail line get the new description, the detail
  line described as \<^verbatim>\<open>Transport\<close> keeps its own.
\<close>

theorem C8_propagation_witness:
  "0 < length lignesLibelles \<and> isHeader (lignesLibelles ! 0) \<and>
   (\<exists>res. updateCell lignesLibelles 0 Libelle ''Achats'' = Inr res \<and>
      res ! 0 = achat\<lparr>libelle := ''Achats''\<rparr> \<and>
      res ! 1 = detailVide\<lparr>libelle := ''Achats''\<rparr> \<and>
      res ! 3 = detailVide\<lparr>libelle := ''Transport''\<rparr>)"
proof -
  have h: "0 < length lignesLibelles" "isHeader (lignesLibelles ! 0)"
    by (simp_all add: lignesLibelles_def achat_def enteteVide_def detailVide_def)
  have one: "(\<forall>j::nat. 0 < j \<and> j \<le> 1 \<longrightarrow> \<not> isHeader (lignesLibelles ! j))"
    by (auto simp: le_Suc_eq lignesLibelles_def detailVide_def)
  from C8_description_propagation [OF h, of "''Achats''"] obtain res where
    r: "updateCell lignesLibelles 0 Libelle ''Achats'' = Inr res"
    and n: "\<forall>i<length lignesLibelles. res ! i =
              (if i = 0 \<or>
                  (0 < i \<and> (\<forall>j. 0 < j \<and> j \<le> i \<longrightarrow> \<not> isHeader (lignesLibelles ! j)) \<and>
                   (libelle (lignesLibelles ! i) = [] \<or>
                    libelle (lignesLibelles ! i) = libelle (lignesLibelles ! 0)))
               then (lignesLibelles ! i)\<lparr>libelle := ''Achats''\<rparr>
               else lignesLibelles ! i)"
    by blast
  have "res ! 0 = achat\<lparr>libelle := ''Achats''\<rparr>"
    using n [rule_format, of 0] by (simp add: lignesLibelles_def)
  moreover have "res ! 1 = detailVide\<lparr>libelle := ''Achats''\<rparr>"
    using n [rule_format, of 1] one by (simp add: lignesLibelles_def detailVide_def)
  moreover have "res ! 3 = detailVide\<lparr>libelle := ''Transport''\<rparr>"
    using n [rule_format, of 3] by (simp add: lignesLibelles_def detailVide_def achat_def enteteVide_def)
  ultimately show ?thesis
    using h r by blast
qed

section \<open>Resolving an account\<close>

lemma find_premier:
  "list_all (\<lambda>x. \<not> P x) avant \<Longrightarrow> P c \<Longrightarrow> find P (avant @ c # apres) = Some c"
  by (induction avant) simp_all

lemma find_aucun: "list_all (\<lambda>x. \<not> P x) xs \<Longrightarrow> find P xs = None"
  by (induction xs) simp_all

lemma grouperLigne_non_resolue:
  "\<not> isHeader l \<Longrightarrow> compteId l = None \<Longrightarrow> grouperLigne j p ex etat l = Inr etat"
  by (cases etat) (simp split: option.splits)

text \<open>
  C7, as the specification states it, fails on a line that was resolved before. Typing
  \<^verbatim>\<open>6\<close> into a blank detail line resolves it to the first account whose code starts with
  6 (identifier 1). Typing \<^verbatim>\<open>6z\<close> next matches no account, and the line keeps
  identifier 1: it is not left without a resolved identifier, and the grouping scan
  appends it to the pending transaction.
\<close>

theorem C7_stale_identifier_counterexample:
  "handleCompteSearch comptesExemple [achat, detailVide] 1 ''6''
     = Inr [achat, detailVide\<lparr>compteId := Some 1\<rparr>] \<and>
   list_all (\<lambda>x. \<not> startsWith (code x) ''6z'') comptesExemple \<and>
   handleCompteSearch comptesExemple [achat, detailVide\<lparr>compteId := Some 1\<rparr>] 1 ''6z''
     = Inr [achat, detailVide\<lparr>compteId := Some 1, compte := ''6z''\<rparr>] \<and>
   compteId (detailVide\<lparr>compteId := Some 1, compte := ''6z''\<rparr>) \<noteq> None \<and>
   grouperLigne (Fin 1) (Fin 1) None ([], Some (payload (Fin 1) (Fin 1) None achat))
       (detailVide\<lparr>compteId := Some 1, compte := ''6z''\<rparr>)
     = Inr ([], Some ((payload (Fin 1) (Fin 1) None achat)\<lparr>lignes_data :=
                 [detail (detailVide\<lparr>compteId := Some 1, compte := ''6z''\<rparr>)]\<rparr>))"
  by (simp add: handleCompteSearch_def updateCell_def dernierAppel_def comptesExemple_def
      startsWith_def payload_def achat_def enteteVide_def detailVide_def)

text \<open>
  C7, amended: resolving an account from a typed prefix stores, on the edited line, the
  identifier of the first entry of the chart of accounts, in list order, whose code starts
  with the prefix, character for character. When no entry matches, no error is raised, the
  typed text is stored and the line keeps the resolved identifier it had, so a line that
  had none still has none; a detail line with no resolved identifier is skipped by the
  grouping scan.
\<close>

theorem C7_resolve_account:
  assumes "row < length ls"
  shows "(list_all (\<lambda>x. \<not> startsWith (code x) v) avant \<and> startsWith (code c) v \<longrightarrow>
            handleCompteSearch (avant @ c # apres) ls row v
              = Inr (ls[row := (ls ! row)\<lparr>compteId := Some (id_c c)\<rparr>])) \<and>
         (list_all (\<lambda>x. \<not> startsWith (code x) v) comptes \<longrightarrow>
            handleCompteSearch comptes ls row v = Inr (ls[row := (ls ! row)\<lparr>compte := v\<rparr>]) \<and>
            compteId (ls[row := (ls ! row)\<lparr>compte := v\<rparr>] ! row) = compteId (ls ! row)) \<and>
         (\<not> isHeader l \<and> compteId l = None \<longrightarrow> grouperLigne j p ex etat l = Inr etat)"
  using assms
  by (simp add: handleCompteSearch_def updateCell_def dernierAppel_def find_premier find_aucun
      grouperLigne_non_resolue del: grouperLigne.simps)

text \<open>
  An instance: the prefix 40 skips account 601 and resolves to account 401, the second
  entry; the prefix 7 matches nothing and leaves the blank line unresolved.
\<close>

theorem C7_resolve_witness:
  "1 < length [achat, detailVide] \<and>
   list_all (\<lambda>x. \<not> startsWith (code x) ''40'') [hd comptesExemple] \<and>
   startsWith (code (comptesExemple ! 1)) ''40'' \<and>
   handleCompteSearch comptesExemple [achat, detailVide] 1 ''40''
     = Inr [achat, detailVide\<lparr>compteId := Some 2\<rparr>] \<and>
   list_all (\<lambda>x. \<not> startsWith (code x) ''7'') comptesExemple \<and>
   handleCompteSearch comptesExemple [achat, detailVide] 1 ''7''
     = Inr [achat, detailVide\<lparr>compte := ''7''\<rparr>] \<and>
   \<not> isHeader (detailVide\<lparr>compte := ''7''\<rparr>) \<and> compteId (detailVide\<lparr>compte := ''7''\<rparr>) = None \<and>
   grouperLigne (Fin 1) (Fin 1) None ([], Some (payload (Fin 1) (Fin 1) None achat))
       (detailVide\<lparr>compte := ''7''\<rparr>)
     = Inr ([], Some (payload (Fin 1) (Fin 1) None achat))"
proof -
  have h: "1 < length [achat, detailVide]" by simp
  have c: "comptesExemple = [hd comptesExemple] @ (comptesExemple ! 1) # [comptesExemple ! 2]"
    by (simp add: comptesExemple_def)
  have m: "list_all (\<lambda>x. \<not> startsWith (code x) ''40'') [hd comptesExemple]"
       "startsWith (code (comptesExemple ! 1)) ''40''"
       "list_all (\<lambda>x. \<not> startsWith (code x) ''7'') comptesExemple"
       "id_c (comptesExemple ! 1) = 2"
    by (simp_all add: comptesExemple_def startsWith_def)
  have d: "\<not> isHeader (detailVide\<lparr>compte := ''7''\<rparr>)" "compteId (detailVide\<lparr>compte := ''7''\<rparr>) = None"
    by (simp_all add: detailVide_def)
  have t1: "handleCompteSearch ([hd comptesExemple] @ (comptesExemple ! 1) # [comptesExemple ! 2])
              [achat, detailVide] 1 ''40'' = Inr [achat, detailVide\<lparr>compteId := Some 2\<rparr>]"
    using C7_resolve_account [OF h, of "''40''" "[hd comptesExemple]" "comptesExemple ! 1"
        "[comptesExemple ! 2]" comptesExemple "detailVide\<lparr>compte := ''7''\<rparr>"] m by simp
  have t2: "handleCompteSearch comptesExemple [achat, detailVide] 1 ''7''
              = Inr [achat, detailVide\<lparr>compte := ''7''\<rparr>]"
    using C7_resolve_account [OF h, of "''7''" "[]" "comptesExemple ! 1" "[]" comptesExemple
        "detailVide"] m by simp
  have t3: "grouperLigne (Fin 1) (Fin 1) None ([], Some (payload (Fin 1) (Fin 1) None achat))
       (detailVide\<lparr>compte := ''7''\<rparr>)
     = Inr ([], Some (payload (Fin 1) (Fin 1) None achat))"
    using C7_resolve_account [OF h, of "''7''" "[]" "comptesExemple ! 1" "[]" comptesExemple
        "detailVide\<lparr>compte := ''7''\<rparr>" "Fin 1" "Fin 1" None "([], Some (payload (Fin 1) (Fin 1) None achat))"] d
    by blast
  from h m d t1 t2 t3 c show ?thesis by metis
qed

section \<open>The Enter key\<close>





end
